theory Spec2Isabelle
  imports Complex_Main "HOL-Library.Char_ord" "HOL-Library.List_Lexorder"
begin

section \<open>Numbers\<close>

text \<open>
  Python floats are modelled as exact rationals. The monetary values of the pipeline have
  two decimal digits and stay far below \<open>2 ^ 53\<close>, and the properties below are about
  order and about rounding to cents, which the idealisation keeps: \<open>round(x, 2)\<close> and the
  format \<open>:,.2f\<close> round the exact value of their argument to the nearest hundredth, ties
  to the even neighbour.
\<close>

definition round_half_even :: "rat \<Rightarrow> int" where
  "round_half_even x =
     (let f = \<lfloor>x\<rfloor>; d = x - of_int f
      in if d < 1 / 2 then f else if 1 / 2 < d then f + 1 else if even f then f else f + 1)"

text \<open>\<^verbatim>\<open>round(x, ndigits)\<close>\<close>

definition py_round :: "rat \<Rightarrow> nat \<Rightarrow> rat" where
  "py_round x ndigits = of_int (round_half_even (x * 10 ^ ndigits)) / 10 ^ ndigits"

text \<open>A value with at most \<open>n\<close> digits after the decimal point.\<close>

definition has_right_digits :: "nat \<Rightarrow> rat \<Rightarrow> bool" where
  "has_right_digits n x \<longleftrightarrow> of_int \<lfloor>x * 10 ^ n\<rfloor> = x * 10 ^ n"

section \<open>producer.py: the generator\<close>

text \<open>
  The event is a Python dict: an association list in the order of the dict literal.
  Values are JSON strings or numbers.
\<close>

datatype json = JStr string | JNum rat

type_synonym event = "(string \<times> json) list"

text \<open>
  Everything \<^verbatim>\<open>generate_synthetic_appointment\<close> reads from outside: the five draws of
  \<^verbatim>\<open>random.choice\<close> in the order of the calls, the two \<^verbatim>\<open>fake.pyfloat\<close> results,
  the text of \<^verbatim>\<open>uuid.uuid4()\<close> and the text of \<^verbatim>\<open>datetime.now().isoformat()\<close>.
\<close>

record entropy =
  department_draw :: nat
  status_draw :: nat
  city_draw :: nat
  payment_method_draw :: nat
  urgency_draw :: nat
  base_cost_pyfloat :: rat
  copay_pyfloat :: rat
  uuid4_str :: string
  now_isoformat :: string

text \<open>\<^verbatim>\<open>random.choice(seq)\<close> is \<^verbatim>\<open>seq[randbelow(len(seq))]\<close>; the draw is reduced below the length.\<close>

definition random_choice :: "'a list \<Rightarrow> nat \<Rightarrow> 'a" where
  "random_choice xs r = xs ! (r mod length xs)"

definition departments :: "string list" where
  "departments = [''Cardiology'', ''Neurology'', ''Orthopedics'', ''Pediatrics'',
                  ''Dermatology'', ''Oncology'', ''Radiology'']"

definition statuses :: "string list" where
  "statuses = [''Scheduled'', ''Completed'', ''Cancelled'', ''No-Show'']"

definition cities :: "string list" where
  "cities = [''New York'', ''Chicago'', ''Los Angeles'', ''Houston'', ''Phoenix'',
             ''Boston'', ''Seattle'']"

definition payment_methods :: "string list" where
  "payment_methods = [''Insurance'', ''Self-Pay'', ''Medicare'', ''Medicaid'']"

definition urgency_levels :: "string list" where
  "urgency_levels = [''Low'', ''Medium'', ''High'', ''Critical'']"

text \<open>
  What \<^verbatim>\<open>fake.pyfloat(min_value=lo, max_value=hi, right_digits=n)\<close> promises of its
  result: it lies in the closed range and has \<open>n\<close> digits after the point.
\<close>

definition pyfloat_result :: "rat \<Rightarrow> rat \<Rightarrow> nat \<Rightarrow> rat \<Rightarrow> bool" where
  "pyfloat_result lo hi n x \<longleftrightarrow> lo \<le> x \<and> x \<le> hi \<and> has_right_digits n x"

definition faker_draws :: "entropy \<Rightarrow> bool" where
  "faker_draws e \<longleftrightarrow>
     pyfloat_result 80 1200 2 (base_cost_pyfloat e) \<and> pyfloat_result 10 80 2 (copay_pyfloat e)"

definition generate_synthetic_appointment :: "entropy \<Rightarrow> event" where
  "generate_synthetic_appointment e =
     (let department = random_choice departments (department_draw e);
          status = random_choice statuses (status_draw e);
          city = random_choice cities (city_draw e);
          payment_method = random_choice payment_methods (payment_method_draw e);
          urgency = random_choice urgency_levels (urgency_draw e);
          base_cost = base_cost_pyfloat e;
          copay = (if payment_method \<noteq> ''Self-Pay'' then copay_pyfloat e else 0);
          total_cost = base_cost + copay
      in [(''appointment_id'', JStr (take 8 (uuid4_str e))),
          (''status'', JStr status),
          (''department'', JStr department),
          (''urgency'', JStr urgency),
          (''cost'', JNum (py_round total_cost 2)),
          (''timestamp'', JStr (now_isoformat e)),
          (''city'', JStr city),
          (''payment_method'', JStr payment_method),
          (''copay'', JNum (py_round copay 2))])"

section \<open>producer.py: the publisher\<close>

text \<open>
  The Kafka client is a library. Its part in \<^verbatim>\<open>run_producer\<close> is modelled by what the
  calls return or raise: the constructor connects or raises, \<^verbatim>\<open>send\<close> hands the record
  to the sender, which repeats a failed attempt while retries are left, and
  \<^verbatim>\<open>future.get(timeout)\<close> returns the metadata, raises the send's error, or raises a
  timeout when the answer took longer than \<open>timeout\<close> seconds.
\<close>

datatype kafka_error = NoBrokersAvailable | KafkaTimeoutError | KafkaError string

record record_metadata =
  partition_no :: nat
  offset_no :: nat

record producer_config =
  bootstrap_servers :: string
  request_timeout_ms :: nat
  max_block_ms :: nat
  retries :: nat

text \<open>One physical send attempt: how long it took and how it ended.\<close>

record attempt =
  took_ms :: nat
  outcome :: "kafka_error + record_metadata"

type_synonym channel = "nat \<Rightarrow> attempt"

type_synonym future = "nat \<times> (kafka_error + record_metadata)"

text \<open>The sender: attempt number \<open>i\<close>, then up to \<open>n\<close> more on failure.\<close>

fun sender :: "nat \<Rightarrow> channel \<Rightarrow> nat \<Rightarrow> nat \<Rightarrow> future" where
  "sender 0 ch i elapsed =
     (elapsed + took_ms (ch i), outcome (ch i))"
| "sender (Suc n) ch i elapsed =
     (case outcome (ch i) of
        Inr md \<Rightarrow> (elapsed + took_ms (ch i), Inr md)
      | Inl err \<Rightarrow> sender n ch (Suc i) (elapsed + took_ms (ch i)))"

definition producer_send :: "producer_config \<Rightarrow> channel \<Rightarrow> future" where
  "producer_send cfg ch = sender (retries cfg) ch 0 0"

definition future_get :: "future \<Rightarrow> nat \<Rightarrow> kafka_error + record_metadata" where
  "future_get fut timeout =
     (if timeout * 1000 < fst fut then Inl KafkaTimeoutError else snd fut)"

definition KafkaProducer :: "kafka_error option \<Rightarrow> producer_config \<Rightarrow> kafka_error + producer_config" where
  "KafkaProducer connect cfg = (case connect of Some err \<Rightarrow> Inl err | None \<Rightarrow> Inr cfg)"

text \<open>
  One turn of the \<^verbatim>\<open>while True\<close> loop reads fresh entropy and meets the channel in some
  state. The loop itself never returns: it is run over the turns the environment is
  given for, and ends early when a call raises. \<open>raised = None\<close> after the last given
  turn means the loop is still running. \<^verbatim>\<open>flush\<close> and the pacing sleep change no
  state of the model.
\<close>

record turn =
  turn_entropy :: entropy
  turn_channel :: channel

record producer_run =
  delivered :: "(event \<times> record_metadata) list"
  count :: nat
  raised :: "kafka_error option"

fun send_loop :: "producer_config \<Rightarrow> turn list \<Rightarrow> producer_run \<Rightarrow> producer_run" where
  "send_loop producer [] st = st"
| "send_loop producer (t # ts) st =
     (let apt = generate_synthetic_appointment (turn_entropy t);
          fut = producer_send producer (turn_channel t)
      in case future_get fut 10 of
           Inl err \<Rightarrow> st\<lparr>raised := Some err\<rparr>
         | Inr record_md \<Rightarrow>
             send_loop producer ts
               (st\<lparr>delivered := delivered st @ [(apt, record_md)], count := count st + 1\<rparr>))"

text \<open>
  \<^verbatim>\<open>run_producer\<close>: the \<^verbatim>\<open>except Exception\<close> handler prints the error and re-raises
  it, so whatever is raised inside the \<^verbatim>\<open>try\<close> ends the process.
\<close>

definition run_producer :: "kafka_error option \<Rightarrow> turn list \<Rightarrow> producer_run" where
  "run_producer connect ts =
     (case KafkaProducer connect
             \<lparr>bootstrap_servers = ''localhost:9092'', request_timeout_ms = 30000,
              max_block_ms = 60000, retries = 5\<rparr> of
        Inl err \<Rightarrow> \<lparr>delivered = [], count = 0, raised = Some err\<rparr>
      | Inr producer \<Rightarrow> send_loop producer ts \<lparr>delivered = [], count = 0, raised = None\<rparr>)"

section \<open>dashboard.py: the store and the query adapter\<close>

text \<open>
  A row of the \<^verbatim>\<open>appointments\<close> table holds the nine fields the producer writes.
  The timestamp is kept as microseconds since the epoch, as \<^verbatim>\<open>pd.to_datetime\<close> reads
  it. A frame knows which columns it has; a cell of a column the frame lacks is never
  read. \<^verbatim>\<open>pd.DataFrame()\<close> has no columns and no rows.
\<close>

record row =
  appointment_id :: string
  status :: string
  department :: string
  urgency :: string
  cost :: rat
  timestamp :: int
  city :: string
  payment_method :: string
  copay :: rat

record dataframe =
  columns :: "string list"
  rows :: "row list"

definition DataFrame :: dataframe where
  "DataFrame = \<lparr>columns = [], rows = []\<rparr>"

text \<open>\<^verbatim>\<open>df.empty\<close>: some axis has length zero.\<close>

definition empty_df :: "dataframe \<Rightarrow> bool" where
  "empty_df df \<longleftrightarrow> columns df = [] \<or> rows df = []"

text \<open>
  Sorting by a key, greatest first; rows with equal keys keep their order. SQL and
  pandas leave the order of ties open, and no property below depends on it.
\<close>

fun insort_desc_key :: "('a \<Rightarrow> 'k::linorder) \<Rightarrow> 'a \<Rightarrow> 'a list \<Rightarrow> 'a list" where
  "insort_desc_key f x [] = [x]"
| "insort_desc_key f x (y # ys) =
     (if f y < f x then x # y # ys else y # insort_desc_key f x ys)"

definition sort_desc_key :: "('a \<Rightarrow> 'k::linorder) \<Rightarrow> 'a list \<Rightarrow> 'a list" where
  "sort_desc_key f xs = foldr (insort_desc_key f) xs []"

text \<open>
  The store is outside the program: it is unreachable, or it holds the table, its rows
  in order of arrival (oldest first). It answers the two statements \<^verbatim>\<open>load_data\<close> can
  build; strings compare bytewise.
\<close>

datatype store = Unreachable string | Appointments "string list" "row list"

datatype param = PStr string | PInt int

definition select_appointments :: "string list \<Rightarrow> row list \<Rightarrow> int \<Rightarrow> string + dataframe" where
  "select_appointments cols matching n =
     (if n < 0 then Inl ''LIMIT must not be negative''
      else Inr \<lparr>columns = cols, rows = take (nat n) (sort_desc_key appointment_id matching)\<rparr>)"

definition read_sql_query :: "string \<Rightarrow> store \<Rightarrow> (string \<rightharpoonup> param) \<Rightarrow> string + dataframe" where
  "read_sql_query sql con params =
     (case con of
        Unreachable msg \<Rightarrow> Inl msg
      | Appointments cols tbl \<Rightarrow>
          if sql = ''SELECT * FROM appointments ORDER BY appointment_id DESC LIMIT :limit'' then
            (case params ''limit'' of
               Some (PInt n) \<Rightarrow> select_appointments cols tbl n
             | _ \<Rightarrow> Inl ''a value is required for bind parameter limit'')
          else if sql = ''SELECT * FROM appointments WHERE status = :status ORDER BY appointment_id DESC LIMIT :limit'' then
            (case (params ''status'', params ''limit'') of
               (Some (PStr s), Some (PInt n)) \<Rightarrow>
                 select_appointments cols (filter (\<lambda>r. status r = s) tbl) n
             | _ \<Rightarrow> Inl ''a value is required for a bind parameter'')
          else Inl ''syntax error'')"

text \<open>The test \<^verbatim>\<open>status_filter and status_filter != "All"\<close>, naming the status it lets through.\<close>

definition filter_applies :: "string option \<Rightarrow> string \<Rightarrow> bool" where
  "filter_applies status_filter s \<longleftrightarrow> status_filter = Some s \<and> s \<noteq> [] \<and> s \<noteq> ''All''"

text \<open>
  The first half of \<^verbatim>\<open>load_data\<close>: the statement and its parameters. Python takes
  \<^verbatim>\<open>None\<close> and the empty string as false.
\<close>

definition build_query :: "string option \<Rightarrow> int \<Rightarrow> string \<times> (string \<rightharpoonup> param)" where
  "build_query status_filter limit =
     (let base_query = ''SELECT * FROM appointments'';
          params = Map.empty;
          (base_query, params) =
            (case status_filter of
               Some s \<Rightarrow>
                 if s \<noteq> [] \<and> s \<noteq> ''All''
                 then (base_query @ '' WHERE status = :status'', params(''status'' \<mapsto> PStr s))
                 else (base_query, params)
             | None \<Rightarrow> (base_query, params));
          base_query = base_query @ '' ORDER BY appointment_id DESC LIMIT :limit'';
          params = params(''limit'' \<mapsto> PInt limit)
      in (base_query, params))"

text \<open>
  \<^verbatim>\<open>load_data\<close> returns the frame together with what it passed to \<^verbatim>\<open>st.error\<close>.
\<close>

definition load_data :: "string option \<Rightarrow> int \<Rightarrow> store \<Rightarrow> dataframe \<times> string list" where
  "load_data status_filter limit engine =
     (case read_sql_query (fst (build_query status_filter limit)) engine
             (snd (build_query status_filter limit)) of
        Inr df \<Rightarrow> (df, [])
      | Inl e \<Rightarrow> (DataFrame, [''Error loading data from database: '' @ e]))"

text \<open>
  Follows the spec's words, for comparison with \<^verbatim>\<open>load_data\<close>: the most recent
  \<open>limit\<close> rows, latest arrival first, optionally restricted to one status.
\<close>

definition most_recent_rows :: "string option \<Rightarrow> int \<Rightarrow> row list \<Rightarrow> row list" where
  "most_recent_rows status_filter limit tbl =
     take (nat limit)
       (rev (case status_filter of
               None \<Rightarrow> tbl
             | Some s \<Rightarrow> if s = ''All'' then tbl else filter (\<lambda>r. status r = s) tbl))"

definition status_options :: "string list" where
  "status_options = [''All'', ''Scheduled'', ''Completed'', ''Cancelled'', ''No-Show'']"

section \<open>dashboard.py: aggregation\<close>

text \<open>The format \<^verbatim>\<open>:,.2f\<close>: two decimals, thousands separated by commas.\<close>

definition digit_char :: "nat \<Rightarrow> char" where
  "digit_char d = ''0123456789'' ! d"

fun decimal :: "nat \<Rightarrow> string" where
  "decimal n = (if n < 10 then [digit_char n] else decimal (n div 10) @ [digit_char (n mod 10)])"

fun thousands :: "string \<Rightarrow> string" where
  "thousands ds =
     (if length ds \<le> 3 then ds
      else thousands (take (length ds - 3) ds) @ '','' @ drop (length ds - 3) ds)"

declare decimal.simps [simp del]

declare thousands.simps [simp del]

definition format_2f :: "rat \<Rightarrow> string" where
  "format_2f x =
     (let cents = nat \<bar>round_half_even (x * 100)\<bar>
      in (if x < 0 then ''-'' else [])
         @ thousands (decimal (cents div 100)) @ ''.''
         @ [digit_char (cents mod 100 div 10), digit_char (cents mod 10)])"

text \<open>\<^verbatim>\<open>Series.mean()\<close>; \<open>None\<close> is NaN, the mean of no values.\<close>

definition series_mean :: "rat list \<Rightarrow> rat option" where
  "series_mean xs = (if xs = [] then None else Some (sum_list xs / of_nat (length xs)))"

record kpis =
  total_appts :: nat
  total_cost :: rat
  average_cost :: rat
  completed :: nat
  cancelled :: nat
  completion_rate :: rat
  avg_copay :: "rat option"

definition kpi_block :: "dataframe \<Rightarrow> kpis" where
  "kpi_block df =
     (let total_appts = length (rows df);
          total_cost = sum_list (map cost (rows df));
          average_cost = (if total_appts > 0 then total_cost / of_nat total_appts else 0);
          completed = length (filter (\<lambda>r. status r = ''Completed'') (rows df));
          cancelled = length (filter (\<lambda>r. status r = ''Cancelled'') (rows df));
          completion_rate =
            (if total_appts > 0 then of_nat completed / of_nat total_appts * 100 else 0);
          avg_copay =
            (if ''copay'' \<in> set (columns df) then series_mean (map copay (rows df)) else Some 0)
      in \<lparr>total_appts = total_appts, total_cost = total_cost, average_cost = average_cost,
          completed = completed, cancelled = cancelled, completion_rate = completion_rate,
          avg_copay = avg_copay\<rparr>)"

text \<open>The five \<^verbatim>\<open>st.metric\<close> cells: label and displayed text.\<close>

definition kpi_metrics :: "kpis \<Rightarrow> (string \<times> string) list" where
  "kpi_metrics k =
     [(''Total Appointments'', decimal (total_appts k)),
      (''Total Cost'', ''$'' @ format_2f (total_cost k)),
      (''Average Cost'', ''$'' @ format_2f (average_cost k)),
      (''Completion Rate'', format_2f (completion_rate k) @ ''%''),
      (''Avg Copay'', ''$'' @ (case avg_copay k of Some c \<Rightarrow> format_2f c | None \<Rightarrow> ''nan''))]"

text \<open>
  A row of a grouped table with the two named aggregations
  \<^verbatim>\<open>appointments=("appointment_id", "count")\<close> and \<^verbatim>\<open>revenue=("cost", "sum")\<close>.
\<close>

record 'k agg_row =
  group_key :: 'k
  appointments :: nat
  revenue :: rat

definition agg_group :: "('k \<Rightarrow> row \<Rightarrow> bool) \<Rightarrow> row list \<Rightarrow> 'k \<Rightarrow> 'k agg_row" where
  "agg_group member rs k =
     \<lparr>group_key = k,
      appointments = length (filter (member k) rs),
      revenue = sum_list (map cost (filter (member k) rs))\<rparr>"

text \<open>\<^verbatim>\<open>groupby("status")\<close> lists the groups by ascending key; then the sort by count.\<close>

definition status_summary :: "dataframe \<Rightarrow> string agg_row list" where
  "status_summary df =
     sort_desc_key appointments
       (map (agg_group (\<lambda>s r. status r = s) (rows df)) (sort (remdups (map status (rows df)))))"

text \<open>
  \<^verbatim>\<open>resample("1Min")\<close> on rows sorted by timestamp: one bin for every minute from the
  minute of the first row to the minute of the last, empty minutes included, each
  labelled by its start.
\<close>

definition minute_of :: "int \<Rightarrow> int" where
  "minute_of t = t div 60000000"

definition resample_1Min :: "row list \<Rightarrow> int agg_row list" where
  "resample_1Min df_time =
     (if df_time = [] then []
      else map (\<lambda>m. (agg_group (\<lambda>m r. minute_of (timestamp r) = m) df_time m)
                       \<lparr>group_key := m * 60000000\<rparr>)
             [minute_of (timestamp (hd df_time)) .. minute_of (timestamp (last df_time))])"

definition volume_cost_trend :: "dataframe \<Rightarrow> int agg_row list" where
  "volume_cost_trend df =
     (if ''timestamp'' \<in> set (columns df)
      then (let df_time = sort_key timestamp (rows df) in resample_1Min df_time)
      else [])"

section \<open>dashboard.py: the refresh loop\<close>

record sidebar =
  selected_status :: string
  update_interval :: nat
  limit_records :: int

text \<open>
  What one turn of the loop puts into the placeholder: the warning, or the dashboard
  (the metrics, the status table, the trend and the first ten rows; the two remaining
  charts are built from the same frame and belong to no property below).
\<close>

datatype screen =
  Warning string
| Dashboard "(string \<times> string) list" "string agg_row list" "int agg_row list" "row list"

record refresh =
  errors :: "string list"
  shown :: screen
  slept :: nat

definition refresh_cycle :: "sidebar \<Rightarrow> store \<Rightarrow> refresh" where
  "refresh_cycle ui engine =
     (let (df_appointments, errs) = load_data (Some (selected_status ui)) (limit_records ui) engine
      in if empty_df df_appointments
         then \<lparr>errors = errs, shown = Warning ''No records found. Waiting for data...'',
               slept = update_interval ui\<rparr>
         else \<lparr>errors = errs,
               shown = Dashboard (kpi_metrics (kpi_block df_appointments))
                         (status_summary df_appointments)
                         (volume_cost_trend df_appointments)
                         (take 10 (rows df_appointments)),
               slept = update_interval ui\<rparr>)"

section \<open>Sample inputs\<close>

definition e_self_pay :: entropy where
  "e_self_pay = \<lparr>department_draw = 0, status_draw = 1, city_draw = 2, payment_method_draw = 1,
     urgency_draw = 3, base_cost_pyfloat = 12345 / 100, copay_pyfloat = 255 / 10,
     uuid4_str = ''3f2b8c1e-7a4d-4e9b-9c57-0d1e2f3a4b5c'',
     now_isoformat = ''2024-05-01T12:00:00.000001''\<rparr>"

definition e_insured :: entropy where
  "e_insured = \<lparr>department_draw = 9, status_draw = 2, city_draw = 5, payment_method_draw = 4,
     urgency_draw = 1, base_cost_pyfloat = 80, copay_pyfloat = 7999 / 100,
     uuid4_str = ''9d0c4b6a-1f2e-4a3b-8c7d-6e5f4a3b2c1d'',
     now_isoformat = ''2024-05-01T12:00:01.250000''\<rparr>"

definition dead_channel :: channel where
  "dead_channel i = \<lparr>took_ms = 100, outcome = Inl (KafkaError ''NotLeaderForPartition'')\<rparr>"

definition dead_turn :: turn where
  "dead_turn = \<lparr>turn_entropy = e_insured, turn_channel = dead_channel\<rparr>"

definition event_columns :: "string list" where
  "event_columns = [''appointment_id'', ''status'', ''department'', ''urgency'', ''cost'',
     ''timestamp'', ''city'', ''payment_method'', ''copay'']"

definition older_row :: row where
  "older_row = \<lparr>appointment_id = ''f3a91c07'', status = ''Completed'', department = ''Oncology'',
     urgency = ''High'', cost = 410, timestamp = 1714564800000000, city = ''Boston'',
     payment_method = ''Self-Pay'', copay = 0\<rparr>"

definition newer_row :: row where
  "newer_row = \<lparr>appointment_id = ''0b7e22d4'', status = ''Cancelled'', department = ''Radiology'',
     urgency = ''Low'', cost = 135, timestamp = 1714564950000000, city = ''Seattle'',
     payment_method = ''Medicare'', copay = 35\<rparr>"

text \<open>Three rows with the statuses and costs of the KPI scenario, everything else free.\<close>

definition scenario_rows :: "row \<Rightarrow> row \<Rightarrow> row \<Rightarrow> row list" where
  "scenario_rows r1 r2 r3 =
     [r1\<lparr>status := ''Completed'', cost := 100\<rparr>,
      r2\<lparr>status := ''Cancelled'', cost := 50\<rparr>,
      r3\<lparr>status := ''Completed'', cost := 200\<rparr>]"

definition stamped_frame :: dataframe where
  "stamped_frame = \<lparr>columns = event_columns, rows = [newer_row, older_row]\<rparr>"

definition unstamped_frame :: dataframe where
  "unstamped_frame = \<lparr>columns = [''appointment_id'', ''status'', ''cost''], rows = [newer_row, older_row]\<rparr>"

definition sample_sidebar :: sidebar where
  "sample_sidebar = \<lparr>selected_status = ''All'', update_interval = 5, limit_records = 200\<rparr>"

definition slow_channel :: channel where
  "slow_channel i =
     (if i < 4 then \<lparr>took_ms = 2000, outcome = Inl (KafkaError ''RequestTimedOut'')\<rparr>
      else \<lparr>took_ms = 50, outcome = Inr \<lparr>partition_no = 0, offset_no = 17\<rparr>\<rparr>)"

definition slow_turn :: turn where
  "slow_turn = \<lparr>turn_entropy = e_self_pay, turn_channel = slow_channel\<rparr>"

section \<open>Rounding lemmas\<close>

lemma round_half_even_lower: "\<lfloor>x\<rfloor> \<le> round_half_even x"
  by (simp add: round_half_even_def Let_def)

lemma round_half_even_upper: "round_half_even x \<le> \<lfloor>x\<rfloor> + 1"
  by (simp add: round_half_even_def Let_def)

lemma round_half_even_mono:
  assumes "x \<le> y"
  shows "round_half_even x \<le> round_half_even y"
proof (cases "\<lfloor>x\<rfloor> < \<lfloor>y\<rfloor>")
  case True
  have "round_half_even x \<le> \<lfloor>x\<rfloor> + 1" by (rule round_half_even_upper)
  also have "\<dots> \<le> \<lfloor>y\<rfloor>" using True by simp
  also have "\<dots> \<le> round_half_even y" by (rule round_half_even_lower)
  finally show ?thesis .
next
  case False
  with floor_mono [OF assms] have eq: "\<lfloor>x\<rfloor> = \<lfloor>y\<rfloor>" by simp
  then have "x - of_int \<lfloor>x\<rfloor> \<le> y - of_int \<lfloor>y\<rfloor>" using assms by simp
  then show ?thesis
    using eq by (auto simp: round_half_even_def Let_def)
qed


lemma py_round_mono: "x \<le> y \<Longrightarrow> py_round x n \<le> py_round y n"
  by (simp add: py_round_def round_half_even_mono divide_right_mono mult_right_mono)


lemma py_round_zero: "py_round 0 n = 0"
  by (simp add: py_round_def round_half_even_def)


section \<open>The generator\<close>

text \<open>
  C10. The dict returned by \<^verbatim>\<open>generate_synthetic_appointment\<close> has exactly the nine keys
  \<open>appointment_id\<close>, \<open>status\<close>, \<open>department\<close>, \<open>urgency\<close>, \<open>cost\<close>, \<open>timestamp\<close>,
  \<open>city\<close>, \<open>payment_method\<close>, \<open>copay\<close>, each once; there is no \<open>base_cost\<close> key, so
  the base cost does not leave the generator. The serializer \<^verbatim>\<open>json.dumps\<close> writes
  the items of this dict and nothing else.
\<close>

theorem generated_fields:
  "map fst (generate_synthetic_appointment e) =
     [''appointment_id'', ''status'', ''department'', ''urgency'', ''cost'', ''timestamp'',
      ''city'', ''payment_method'', ''copay'']
   \<and> distinct (map fst (generate_synthetic_appointment e))
   \<and> length (generate_synthetic_appointment e) = 9
   \<and> map_of (generate_synthetic_appointment e) ''base_cost'' = None"
  by (simp add: generate_synthetic_appointment_def Let_def)

text \<open>
  C2. For every generated event, \<open>0 \<le> copay \<le> cost\<close> (\<open>cost\<close> is the total), and the
  copay is \<open>0\<close> whenever the payment method is \<open>Self-Pay\<close>. The draws of
  \<^verbatim>\<open>fake.pyfloat\<close> are taken in their ranges.
\<close>

theorem copay_bounds:
  assumes "faker_draws e"
  shows "\<exists>c t. map_of (generate_synthetic_appointment e) ''copay'' = Some (JNum c)
           \<and> map_of (generate_synthetic_appointment e) ''cost'' = Some (JNum t)
           \<and> 0 \<le> c \<and> c \<le> t
           \<and> (map_of (generate_synthetic_appointment e) ''payment_method'' = Some (JStr ''Self-Pay'')
                \<longrightarrow> c = 0)"
proof -
  let ?pm = "random_choice payment_methods (payment_method_draw e)"
  let ?copay = "if ?pm \<noteq> ''Self-Pay'' then copay_pyfloat e else 0"
  have b: "0 \<le> base_cost_pyfloat e" and c: "0 \<le> copay_pyfloat e"
    using assms by (simp_all add: faker_draws_def pyfloat_result_def)
  have c0: "0 \<le> ?copay" using c by simp
  have "py_round 0 2 \<le> py_round ?copay 2" using c0 by (rule py_round_mono)
  then have 1: "0 \<le> py_round ?copay 2" by (simp add: py_round_zero)
  have "?copay \<le> base_cost_pyfloat e + ?copay" using b by simp
  then have 2: "py_round ?copay 2 \<le> py_round (base_cost_pyfloat e + ?copay) 2"
    by (rule py_round_mono)
  have 3: "?pm = ''Self-Pay'' \<longrightarrow> py_round ?copay 2 = 0"
    by (simp add: py_round_zero)
  show ?thesis
    using 1 2 3 by (simp add: generate_synthetic_appointment_def Let_def)
qed


section \<open>The publisher\<close>

lemma sender_all_fail:
  "\<forall>i<Suc n. isl (outcome (ch (k + i))) \<Longrightarrow> isl (snd (sender n ch k el))"
proof (induction n arbitrary: k el)
  case 0
  then show ?case by simp
next
  case (Suc n)
  from Suc.prems have here: "isl (outcome (ch k))" by (metis add.right_neutral zero_less_Suc)
  have "\<forall>i<Suc n. isl (outcome (ch (Suc k + i)))"
  proof (intro allI impI)
    fix i assume "i < Suc n"
    then have "Suc i < Suc (Suc n)" by simp
    with Suc.prems have "isl (outcome (ch (k + Suc i)))" by blast
    then show "isl (outcome (ch (Suc k + i)))" by simp
  qed
  then have "isl (snd (sender n ch (Suc k) (el + took_ms (ch k))))" by (rule Suc.IH)
  with here show ?case by (auto simp: isl_def)
qed

lemma future_get_fail: "isl (snd fut) \<Longrightarrow> isl (future_get fut timeout)"
  by (simp add: future_get_def)

lemma send_loop_append:
  "raised (send_loop p pre st) = None \<Longrightarrow>
     send_loop p (pre @ ts) st = send_loop p ts (send_loop p pre st)"
proof (induction pre arbitrary: st)
  case Nil
  then show ?case by simp
next
  case (Cons t pre)
  then show ?case by (auto simp: Let_def split: sum.splits)
qed

lemma send_loop_count:
  "raised (send_loop p ts st) = None \<Longrightarrow>
     count (send_loop p ts st) = count st + length ts
     \<and> length (delivered (send_loop p ts st)) = length (delivered st) + length ts"
proof (induction ts arbitrary: st)
  case Nil
  then show ?case by simp
next
  case (Cons t ts)
  then show ?case by (auto simp: Let_def split: sum.splits)
qed

text \<open>
  C9. The producer is connected and every earlier turn was delivered. When the six
  attempts of a send (the first and the five retries) all fail, \<^verbatim>\<open>future.get\<close> raises,
  \<^verbatim>\<open>run_producer\<close> re-raises and the process ends there: the run is the run so far with
  the error raised, whatever would have followed, and it holds no receipt for this
  event (one receipt for each earlier turn, and no more).
\<close>

theorem all_attempts_fail:
  assumes pre: "raised (run_producer None pre) = None"
    and fail: "\<forall>i<6. isl (outcome (turn_channel t i))"
  shows "\<exists>err. run_producer None (pre @ t # post) = (run_producer None pre)\<lparr>raised := Some err\<rparr>
           \<and> length (delivered (run_producer None (pre @ t # post))) = length pre
           \<and> count (run_producer None (pre @ t # post)) = length pre"
proof -
  let ?cfg = "\<lparr>bootstrap_servers = ''localhost:9092'', request_timeout_ms = 30000,
              max_block_ms = 60000, retries = 5\<rparr>"
  let ?st0 = "\<lparr>delivered = [], count = 0, raised = None\<rparr>"
  have run: "\<And>ts. run_producer None ts = send_loop ?cfg ts ?st0"
    by (simp add: run_producer_def KafkaProducer_def)
  from pre have none: "raised (send_loop ?cfg pre ?st0) = None" by (simp add: run)
  have "\<forall>i<Suc 5. isl (outcome (turn_channel t (0 + i)))" using fail by simp
  then have "isl (snd (sender 5 (turn_channel t) 0 0))" by (rule sender_all_fail)
  then have "isl (future_get (producer_send ?cfg (turn_channel t)) 10)"
    by (simp add: producer_send_def future_get_fail)
  then obtain err where err: "future_get (producer_send ?cfg (turn_channel t)) 10 = Inl err"
    by (auto simp: isl_def)
  have "send_loop ?cfg (pre @ t # post) ?st0 = send_loop ?cfg (t # post) (send_loop ?cfg pre ?st0)"
    using none by (rule send_loop_append)
  also have "\<dots> = (send_loop ?cfg pre ?st0)\<lparr>raised := Some err\<rparr>"
    using err by (simp add: Let_def)
  finally have eq: "run_producer None (pre @ t # post) = (run_producer None pre)\<lparr>raised := Some err\<rparr>"
    by (simp add: run)
  from send_loop_count [OF none] have "count (run_producer None pre) = length pre"
    and "length (delivered (run_producer None pre)) = length pre" by (simp_all add: run)
  with eq show ?thesis by (intro exI [of _ err]) simp
qed

section \<open>Sorting, greatest first\<close>

lemma set_insort_desc_key: "set (insort_desc_key f x xs) = insert x (set xs)"
  by (induction xs) auto

lemma length_insort_desc_key: "length (insort_desc_key f x xs) = Suc (length xs)"
  by (induction xs) auto

lemma sum_list_insort_desc_key:
  "sum_list (map g (insort_desc_key f x xs)) = (g x :: nat) + sum_list (map g xs)"
  by (induction xs) auto

lemma sorted_insort_desc_key:
  "sorted_wrt (\<lambda>a b. f b \<le> f a) xs \<Longrightarrow> sorted_wrt (\<lambda>a b. f b \<le> f a) (insort_desc_key f x xs)"
  by (induction xs) (auto simp: set_insort_desc_key)

lemma set_sort_desc_key: "set (sort_desc_key f xs) = set xs"
  by (induction xs) (simp_all add: sort_desc_key_def set_insort_desc_key)

lemma length_sort_desc_key: "length (sort_desc_key f xs) = length xs"
  by (induction xs) (simp_all add: sort_desc_key_def length_insort_desc_key)

lemma sum_list_sort_desc_key:
  "sum_list (map g (sort_desc_key f xs)) = (sum_list (map g xs) :: nat)"
  by (induction xs) (simp_all add: sort_desc_key_def sum_list_insort_desc_key)

lemma sorted_sort_desc_key: "sorted_wrt (\<lambda>a b. f b \<le> f a) (sort_desc_key f xs)"
  by (induction xs) (simp_all add: sort_desc_key_def sorted_insort_desc_key)

lemma take_sorted_top:
  assumes "sorted_wrt R xs" and "x \<in> set xs" and "x \<notin> set (take n xs)"
  shows "length (take n xs) = n \<and> (\<forall>q\<in>set (take n xs). R q x)"
proof -
  have "xs = take n xs @ drop n xs" by simp
  with assms(2,3) have x: "x \<in> set (drop n xs)"
    by (metis Un_iff set_append)
  then have "drop n xs \<noteq> []" by auto
  then have len: "length (take n xs) = n" by simp
  from assms(1) have "sorted_wrt R (take n xs @ drop n xs)" by simp
  then have "\<forall>q\<in>set (take n xs). \<forall>y\<in>set (drop n xs). R q y"
    by (simp only: sorted_wrt_append) blast
  with x len show ?thesis by blast
qed

section \<open>Group sizes\<close>

lemma one_group:
  "distinct ks \<Longrightarrow> k \<in> set ks \<Longrightarrow> (\<Sum>j\<leftarrow>ks. if k = j then 1 else 0) = (1::nat)"
  by (induction ks) auto

lemma group_sizes:
  assumes "distinct ks" and "\<forall>r\<in>set xs. key r \<in> set ks"
  shows "(\<Sum>k\<leftarrow>ks. length (filter (\<lambda>r. key r = k) xs)) = length xs"
  using assms(2)
proof (induction xs)
  case Nil
  then show ?case by simp
next
  case (Cons x xs)
  have "(\<Sum>k\<leftarrow>ks. length (filter (\<lambda>r. key r = k) (x # xs)))
      = (\<Sum>k\<leftarrow>ks. (if key x = k then 1 else 0) + length (filter (\<lambda>r. key r = k) xs))"
    by (rule arg_cong [where f = sum_list]) simp
  also have "\<dots> = (\<Sum>k\<leftarrow>ks. if key x = k then 1 else 0)
                   + (\<Sum>k\<leftarrow>ks. length (filter (\<lambda>r. key r = k) xs))"
    by (simp add: sum_list_addf)
  also have "\<dots> = 1 + length xs"
    using Cons one_group [OF assms(1), of "key x"] by simp
  finally show ?case by simp
qed

lemma sorted_le_last: "sorted xs \<Longrightarrow> x \<in> set xs \<Longrightarrow> x \<le> (last xs :: int)"
  by (induction xs) auto

lemma sorted_hd_le: "sorted xs \<Longrightarrow> x \<in> set xs \<Longrightarrow> (hd xs :: int) \<le> x"
  by (cases xs) auto

lemma resample_counts:
  assumes "sorted (map timestamp rs)"
  shows "sum_list (map appointments (resample_1Min rs)) = length rs"
proof (cases "rs = []")
  case True
  then show ?thesis by (simp add: resample_1Min_def)
next
  case False
  let ?lo = "minute_of (timestamp (hd rs))" and ?hi = "minute_of (timestamp (last rs))"
  have inside: "\<forall>r\<in>set rs. minute_of (timestamp r) \<in> set [?lo..?hi]"
  proof
    fix r assume r: "r \<in> set rs"
    then have m: "timestamp r \<in> set (map timestamp rs)" by simp
    have "hd (map timestamp rs) \<le> timestamp r"
      using assms m by (rule sorted_hd_le)
    moreover have "timestamp r \<le> last (map timestamp rs)"
      using assms m by (rule sorted_le_last)
    ultimately have "timestamp (hd rs) \<le> timestamp r" and "timestamp r \<le> timestamp (last rs)"
      using False by (simp_all add: hd_map last_map)
    then show "minute_of (timestamp r) \<in> set [?lo..?hi]"
      by (simp add: minute_of_def zdiv_mono1)
  qed
  have "sum_list (map appointments (resample_1Min rs))
      = (\<Sum>m\<leftarrow>[?lo..?hi]. length (filter (\<lambda>r. minute_of (timestamp r) = m) rs))"
    using False by (simp add: resample_1Min_def agg_group_def comp_def)
  also have "\<dots> = length rs"
    using distinct_upto inside by (rule group_sizes)
  finally show ?thesis .
qed

section \<open>Aggregation\<close>

text \<open>
  C8. For every frame, the KPI count is the number of rows, and the per-status counts
  of the status table add up to the same number.
\<close>

theorem kpi_and_status_counts:
  "total_appts (kpi_block df) = length (rows df)
   \<and> sum_list (map appointments (status_summary df)) = length (rows df)"
proof -
  let ?ks = "sort (remdups (map status (rows df)))"
  have "sum_list (map appointments (status_summary df))
      = (\<Sum>k\<leftarrow>?ks. length (filter (\<lambda>r. status r = k) (rows df)))"
    by (simp add: status_summary_def sum_list_sort_desc_key agg_group_def comp_def)
  also have "\<dots> = length (rows df)"
    by (rule group_sizes) simp_all
  finally show ?thesis by (simp add: kpi_block_def Let_def)
qed

text \<open>
  C5. When the frame has the timestamp column (every row then carries a timestamp),
  the counts of the per-minute bins add up to the number of rows; when it has no
  timestamp column (no row carries one), the trend is empty.
\<close>

theorem trend_counts:
  "(''timestamp'' \<in> set (columns df) \<longrightarrow>
      sum_list (map appointments (volume_cost_trend df)) = length (rows df))
   \<and> (''timestamp'' \<notin> set (columns df) \<longrightarrow> volume_cost_trend df = [])"
proof -
  have "sum_list (map appointments (resample_1Min (sort_key timestamp (rows df))))
      = length (sort_key timestamp (rows df))"
    by (rule resample_counts) simp
  then show ?thesis by (simp add: volume_cost_trend_def Let_def)
qed

theorem trend_counts_witness:
  "''timestamp'' \<in> set (columns stamped_frame)
   \<and> sum_list (map appointments (volume_cost_trend stamped_frame)) = length (rows stamped_frame)
   \<and> ''timestamp'' \<notin> set (columns unstamped_frame)
   \<and> volume_cost_trend unstamped_frame = []"
proof -
  have 1: "''timestamp'' \<in> set (columns stamped_frame)"
    by (simp add: stamped_frame_def event_columns_def)
  have 2: "''timestamp'' \<notin> set (columns unstamped_frame)"
    by (simp add: unstamped_frame_def)
  from trend_counts [of stamped_frame] trend_counts [of unstamped_frame] 1 2
  show ?thesis by blast
qed

lemma floor_rat_numeral_div: "\<lfloor>numeral a / numeral b :: rat\<rfloor> = numeral a div numeral b"
  by (metis floor_divide_of_int_eq of_int_numeral)

text \<open>
  C3. For three rows with statuses Completed, Cancelled, Completed and costs 100.00,
  50.00, 200.00, the KPI block gives count 3, total cost 350.00, average cost 350/3,
  which is 116.67 to two decimals, 2 completed, 1 cancelled and completion rate 200/3,
  which is 66.67 to two decimals; the metric cells show \<open>3\<close>, \<open>$350.00\<close>, \<open>$116.67\<close>
  and \<open>66.67%\<close>.
\<close>

theorem kpi_scenario:
  "map status (scenario_rows r1 r2 r3) = [''Completed'', ''Cancelled'', ''Completed'']
   \<and> map cost (scenario_rows r1 r2 r3) = [100, 50, 200]
   \<and> total_appts (kpi_block \<lparr>columns = cols, rows = scenario_rows r1 r2 r3\<rparr>) = 3
   \<and> total_cost (kpi_block \<lparr>columns = cols, rows = scenario_rows r1 r2 r3\<rparr>) = 350
   \<and> average_cost (kpi_block \<lparr>columns = cols, rows = scenario_rows r1 r2 r3\<rparr>) = 350 / 3
   \<and> py_round (average_cost (kpi_block \<lparr>columns = cols, rows = scenario_rows r1 r2 r3\<rparr>)) 2
        = 11667 / 100
   \<and> completed (kpi_block \<lparr>columns = cols, rows = scenario_rows r1 r2 r3\<rparr>) = 2
   \<and> cancelled (kpi_block \<lparr>columns = cols, rows = scenario_rows r1 r2 r3\<rparr>) = 1
   \<and> completion_rate (kpi_block \<lparr>columns = cols, rows = scenario_rows r1 r2 r3\<rparr>) = 200 / 3
   \<and> py_round (completion_rate (kpi_block \<lparr>columns = cols, rows = scenario_rows r1 r2 r3\<rparr>)) 2
        = 6667 / 100
   \<and> take 4 (kpi_metrics (kpi_block \<lparr>columns = cols, rows = scenario_rows r1 r2 r3\<rparr>))
        = [(''Total Appointments'', ''3''), (''Total Cost'', ''$350.00''),
           (''Average Cost'', ''$116.67''), (''Completion Rate'', ''66.67%'')]"
proof -
  let ?k = "kpi_block \<lparr>columns = cols, rows = scenario_rows r1 r2 r3\<rparr>"
  have k: "total_appts ?k = 3" "total_cost ?k = 350" "average_cost ?k = 350 / 3"
    "completed ?k = 2" "cancelled ?k = 1" "completion_rate ?k = 200 / 3"
    by (simp_all add: kpi_block_def Let_def scenario_rows_def)
  have r: "round_half_even (35000 / 3) = 11667" "round_half_even (20000 / 3) = 6667"
    "round_half_even 35000 = 35000"
    by (simp_all add: round_half_even_def Let_def floor_rat_numeral_div)
  have d: "decimal 3 = ''3''" "decimal 350 = ''350''" "decimal 116 = ''116''" "decimal 66 = ''66''"
    by (simp_all add: decimal.simps digit_char_def)
  have t: "thousands ''350'' = ''350''" "thousands ''116'' = ''116''" "thousands ''66'' = ''66''"
    by (simp_all add: thousands.simps)
  have f: "format_2f 350 = ''350.00''" "format_2f (350 / 3) = ''116.67''"
    "format_2f (200 / 3) = ''66.67''"
    by (simp_all add: format_2f_def Let_def r d t digit_char_def)
  have s: "map status (scenario_rows r1 r2 r3) = [''Completed'', ''Cancelled'', ''Completed'']"
    "map cost (scenario_rows r1 r2 r3) = [100, 50, 200]"
    by (simp_all add: scenario_rows_def)
  show ?thesis
    by (simp add: s k kpi_metrics_def py_round_def r d f)
qed

section \<open>The sidebar\<close>

text \<open>
  C6, as the code has it. The status selector offers exactly five fixed options: \<open>All\<close>
  and the four statuses the producer draws from.
\<close>

theorem status_options_five:
  "length status_options = 5 \<and> distinct status_options \<and> status_options = ''All'' # statuses"
  by (simp add: status_options_def statuses_def)

text \<open>C6 as stated (six options) does not hold.\<close>

theorem status_options_not_six: "length status_options \<noteq> 6"
  by (simp add: status_options_def)

section \<open>The query adapter\<close>

lemma query_unfiltered:
  assumes "\<not> (\<exists>s. filter_applies sf s)"
  shows "build_query sf limit =
       (''SELECT * FROM appointments ORDER BY appointment_id DESC LIMIT :limit'',
        [''limit'' \<mapsto> PInt limit])"
proof (cases sf)
  case None
  then show ?thesis by (simp add: build_query_def)
next
  case (Some s)
  with assms have "\<not> (s \<noteq> [] \<and> s \<noteq> ''All'')" by (simp add: filter_applies_def)
  then show ?thesis by (cases "s = []") (simp_all add: build_query_def Some)
qed

lemma query_filtered:
  assumes "filter_applies sf s"
  shows "build_query sf limit =
       (''SELECT * FROM appointments WHERE status = :status ORDER BY appointment_id DESC LIMIT :limit'',
        [''status'' \<mapsto> PStr s, ''limit'' \<mapsto> PInt limit])"
proof -
  from assms have sf: "sf = Some s" and c: "s \<noteq> [] \<and> s \<noteq> ''All''"
    by (simp_all add: filter_applies_def)
  show ?thesis unfolding build_query_def sf using c by simp
qed

lemma load_data_table:
  assumes "0 \<le> limit"
  shows "load_data sf limit (Appointments cols tbl) =
           (\<lparr>columns = cols,
             rows = take (nat limit) (sort_desc_key appointment_id
                      (filter (\<lambda>r. \<forall>s. filter_applies sf s \<longrightarrow> status r = s) tbl))\<rparr>, [])"
proof (cases "\<exists>s. filter_applies sf s")
  case True
  then obtain s where s: "filter_applies sf s" by blast
  then have only: "\<And>s'. filter_applies sf s' \<longleftrightarrow> s' = s"
    by (auto simp: filter_applies_def)
  show ?thesis
    using assms by (simp add: load_data_def query_filtered [OF s] read_sql_query_def
        select_appointments_def only)
next
  case False
  then have none: "\<And>s'. \<not> filter_applies sf s'" by blast
  show ?thesis
    using assms by (simp add: load_data_def query_unfiltered [OF False] read_sql_query_def
        select_appointments_def none)
qed

text \<open>
  C1, as the code has it. For a positive limit and a store that answers, \<^verbatim>\<open>load_data\<close>
  reports no error and returns rows of the table ordered by \<open>appointment_id\<close>,
  greatest first, at most \<open>limit\<close> of them, all with the given status when a non-empty
  filter other than \<open>All\<close> is given; a matching row is left out only when \<open>limit\<close> rows
  are returned, each with an \<open>appointment_id\<close> at least as great. The order is that of
  the identifier, a random token, not that of arrival.
\<close>

theorem load_data_rows:
  assumes "0 < limit"
  shows "snd (load_data sf limit (Appointments cols tbl)) = []
    \<and> sorted_wrt (\<lambda>a b. appointment_id b \<le> appointment_id a)
         (rows (fst (load_data sf limit (Appointments cols tbl))))
    \<and> length (rows (fst (load_data sf limit (Appointments cols tbl)))) \<le> nat limit
    \<and> set (rows (fst (load_data sf limit (Appointments cols tbl)))) \<subseteq> set tbl
    \<and> (\<forall>s. filter_applies sf s \<longrightarrow>
          (\<forall>r\<in>set (rows (fst (load_data sf limit (Appointments cols tbl)))). status r = s))
    \<and> (\<forall>r\<in>set tbl. (\<forall>s. filter_applies sf s \<longrightarrow> status r = s) \<longrightarrow>
          r \<notin> set (rows (fst (load_data sf limit (Appointments cols tbl)))) \<longrightarrow>
            length (rows (fst (load_data sf limit (Appointments cols tbl)))) = nat limit
            \<and> (\<forall>q\<in>set (rows (fst (load_data sf limit (Appointments cols tbl)))).
                  appointment_id r \<le> appointment_id q))"
proof -
  let ?m = "filter (\<lambda>r. \<forall>s. filter_applies sf s \<longrightarrow> status r = s) tbl"
  let ?xs = "sort_desc_key appointment_id ?m"
  let ?R = "\<lambda>a b :: row. appointment_id b \<le> appointment_id a"
  have ld: "load_data sf limit (Appointments cols tbl)
      = (\<lparr>columns = cols, rows = take (nat limit) ?xs\<rparr>, [])"
    using assms by (simp add: load_data_table)
  have sorted: "sorted_wrt ?R ?xs" by (rule sorted_sort_desc_key)
  have 1: "sorted_wrt ?R (take (nat limit) ?xs)"
    using sorted by (rule sorted_wrt_take)
  have 2: "length (take (nat limit) ?xs) \<le> nat limit" by simp
  have sub: "set (take (nat limit) ?xs) \<subseteq> set ?m"
    using set_take_subset [of "nat limit" ?xs] by (simp add: set_sort_desc_key)
  then have 3: "set (take (nat limit) ?xs) \<subseteq> set tbl" by auto
  have 4: "\<forall>s. filter_applies sf s \<longrightarrow> (\<forall>r\<in>set (take (nat limit) ?xs). status r = s)"
    using sub by auto
  have 5: "\<forall>r\<in>set tbl. (\<forall>s. filter_applies sf s \<longrightarrow> status r = s) \<longrightarrow>
          r \<notin> set (take (nat limit) ?xs) \<longrightarrow>
            length (take (nat limit) ?xs) = nat limit
            \<and> (\<forall>q\<in>set (take (nat limit) ?xs). appointment_id r \<le> appointment_id q)"
  proof (intro ballI impI)
    fix r assume "r \<in> set tbl" and "\<forall>s. filter_applies sf s \<longrightarrow> status r = s"
      and out: "r \<notin> set (take (nat limit) ?xs)"
    then have "r \<in> set ?xs" by (simp add: set_sort_desc_key)
    from take_sorted_top [OF sorted this out]
    show "length (take (nat limit) ?xs) = nat limit
            \<and> (\<forall>q\<in>set (take (nat limit) ?xs). appointment_id r \<le> appointment_id q)" .
  qed
  have rs: "rows (fst (load_data sf limit (Appointments cols tbl))) = take (nat limit) ?xs"
    and er: "snd (load_data sf limit (Appointments cols tbl)) = []"
    by (simp_all add: ld)
  show ?thesis
    unfolding rs er using 1 2 3 4 5 by blast
qed

text \<open>The theorem at the filter \<open>Cancelled\<close>, limit 1, on a table of two rows.\<close>

theorem load_data_rows_witness:
  "(0::int) < 1
   \<and> filter_applies (Some ''Cancelled'') ''Cancelled''
   \<and> rows (fst (load_data (Some ''Cancelled'') 1 (Appointments event_columns [older_row, newer_row])))
       = [newer_row]
   \<and> snd (load_data (Some ''Cancelled'') 1 (Appointments event_columns [older_row, newer_row])) = []
   \<and> length (rows (fst (load_data (Some ''Cancelled'') 1
         (Appointments event_columns [older_row, newer_row])))) \<le> nat 1
   \<and> map status (rows (fst (load_data (Some ''Cancelled'') 1
         (Appointments event_columns [older_row, newer_row])))) = [''Cancelled'']"
proof -
  have h: "(0::int) < 1" by simp
  have f: "filter_applies (Some ''Cancelled'') ''Cancelled''"
    by (simp add: filter_applies_def)
  then have only: "\<And>s. filter_applies (Some ''Cancelled'') s \<longleftrightarrow> s = ''Cancelled''"
    by (auto simp: filter_applies_def)
  have st: "status older_row \<noteq> ''Cancelled''" "status newer_row = ''Cancelled''"
    by (simp_all add: older_row_def newer_row_def)
  have r: "rows (fst (load_data (Some ''Cancelled'') 1 (Appointments event_columns [older_row, newer_row])))
       = [newer_row]"
    by (simp add: load_data_table only st sort_desc_key_def)
  from load_data_rows [OF h, of "Some ''Cancelled''" event_columns "[older_row, newer_row]"] f h r st
  show ?thesis by simp
qed

text \<open>
  C1 as stated does not hold. The table holds an older row and a newer one, the older
  with the greater identifier: with limit 1 and no filter \<^verbatim>\<open>load_data\<close> returns the
  older row, where the most recent row is the newer one. And the empty string, a filter
  other than \<open>All\<close> and \<open>None\<close>, restricts nothing: the row returned has the status
  \<open>Completed\<close>.
\<close>

theorem load_data_not_most_recent:
  "rows (fst (load_data None 1 (Appointments event_columns [older_row, newer_row]))) = [older_row]
   \<and> most_recent_rows None 1 [older_row, newer_row] = [newer_row]
   \<and> timestamp older_row < timestamp newer_row
   \<and> rows (fst (load_data (Some []) 1 (Appointments event_columns [older_row, newer_row]))) = [older_row]
   \<and> status older_row \<noteq> []"
proof -
  have "appointment_id newer_row < appointment_id older_row"
    by (simp add: older_row_def newer_row_def)
  then have s: "sort_desc_key appointment_id [older_row, newer_row] = [older_row, newer_row]"
    by (simp add: sort_desc_key_def)
  have no: "\<not> (\<exists>s. filter_applies None s)" "\<not> (\<exists>s. filter_applies (Some []) s)"
    by (simp_all add: filter_applies_def)
  have 1: "rows (fst (load_data None 1 (Appointments event_columns [older_row, newer_row]))) = [older_row]"
    using no(1) by (simp add: load_data_table s)
  have 2: "rows (fst (load_data (Some []) 1 (Appointments event_columns [older_row, newer_row]))) = [older_row]"
    using no(2) by (simp add: load_data_table s)
  have 3: "most_recent_rows None 1 [older_row, newer_row] = [newer_row]"
    by (simp add: most_recent_rows_def)
  have 4: "timestamp older_row < timestamp newer_row" "status older_row \<noteq> []"
    by (simp_all add: older_row_def newer_row_def)
  from 1 2 3 4 show ?thesis by simp
qed

lemma empty_table_empty_frame: "empty_df (fst (load_data sf limit (Appointments cols [])))"
proof (cases "0 \<le> limit")
  case True
  then show ?thesis by (simp add: load_data_table sort_desc_key_def empty_df_def)
next
  case False
  have "\<exists>m. read_sql_query (fst (build_query sf limit)) (Appointments cols [])
              (snd (build_query sf limit)) = Inl m"
  proof (cases "\<exists>x. filter_applies sf x")
    case True
    then obtain x where "filter_applies sf x" by blast
    then show ?thesis
      using False by (simp add: query_filtered read_sql_query_def select_appointments_def)
  next
    case no: False
    then show ?thesis
      using False by (simp add: query_unfiltered read_sql_query_def select_appointments_def)
  qed
  then show ?thesis by (auto simp: load_data_def empty_df_def DataFrame_def)
qed

text \<open>
  C4. Whenever the query raises, \<^verbatim>\<open>load_data\<close> returns the empty frame and passes the
  message to \<^verbatim>\<open>st.error\<close>; it has no other outcome. The refresh loop then shows the
  waiting notice and sleeps, as it does for a table without rows: only the error message
  tells the two apart.
\<close>

theorem query_failure_recovered:
  assumes "read_sql_query (fst (build_query sf limit)) db (snd (build_query sf limit)) = Inl msg"
  shows "load_data sf limit db = (DataFrame, [''Error loading data from database: '' @ msg])
    \<and> empty_df (fst (load_data sf limit db))
    \<and> (sf = Some (selected_status ui) \<and> limit = limit_records ui \<longrightarrow>
         refresh_cycle ui db =
           \<lparr>errors = [''Error loading data from database: '' @ msg],
            shown = Warning ''No records found. Waiting for data...'',
            slept = update_interval ui\<rparr>
         \<and> shown (refresh_cycle ui db) = shown (refresh_cycle ui (Appointments cols [])))"
proof -
  have ld: "load_data sf limit db = (DataFrame, [''Error loading data from database: '' @ msg])"
    using assms by (simp add: load_data_def)
  have e: "empty_df DataFrame" by (simp add: empty_df_def DataFrame_def)
  have w: "shown (refresh_cycle ui (Appointments cols []))
      = Warning ''No records found. Waiting for data...''"
    using empty_table_empty_frame [of "Some (selected_status ui)" "limit_records ui" cols]
    by (simp add: refresh_cycle_def split_def)
  have c: "sf = Some (selected_status ui) \<and> limit = limit_records ui \<longrightarrow>
         refresh_cycle ui db =
           \<lparr>errors = [''Error loading data from database: '' @ msg],
            shown = Warning ''No records found. Waiting for data...'',
            slept = update_interval ui\<rparr>"
    using ld e by (auto simp: refresh_cycle_def)
  from ld e w c show ?thesis by simp
qed

text \<open>The theorem at an unreachable store.\<close>

theorem query_failure_recovered_witness:
  "read_sql_query (fst (build_query (Some (selected_status sample_sidebar)) (limit_records sample_sidebar)))
      (Unreachable ''connection refused'')
      (snd (build_query (Some (selected_status sample_sidebar)) (limit_records sample_sidebar)))
     = Inl ''connection refused''
   \<and> load_data (Some (selected_status sample_sidebar)) (limit_records sample_sidebar)
        (Unreachable ''connection refused'')
       = (DataFrame, [''Error loading data from database: '' @ ''connection refused''])
   \<and> refresh_cycle sample_sidebar (Unreachable ''connection refused'') =
           \<lparr>errors = [''Error loading data from database: '' @ ''connection refused''],
            shown = Warning ''No records found. Waiting for data...'',
            slept = update_interval sample_sidebar\<rparr>
   \<and> shown (refresh_cycle sample_sidebar (Unreachable ''connection refused''))
       = shown (refresh_cycle sample_sidebar (Appointments event_columns []))"
proof -
  have h: "read_sql_query (fst (build_query (Some (selected_status sample_sidebar)) (limit_records sample_sidebar)))
      (Unreachable ''connection refused'')
      (snd (build_query (Some (selected_status sample_sidebar)) (limit_records sample_sidebar)))
     = Inl ''connection refused''"
    by (simp add: read_sql_query_def)
  from query_failure_recovered [OF h, of sample_sidebar event_columns] h
  show ?thesis by blast
qed

section \<open>The theorems of the producer at sample inputs\<close>

text \<open>A self-paid appointment: the copay is zero.\<close>

theorem copay_bounds_witness:
  "faker_draws e_self_pay
   \<and> map_of (generate_synthetic_appointment e_self_pay) ''payment_method'' = Some (JStr ''Self-Pay'')
   \<and> (\<exists>c t. map_of (generate_synthetic_appointment e_self_pay) ''copay'' = Some (JNum c)
           \<and> map_of (generate_synthetic_appointment e_self_pay) ''cost'' = Some (JNum t)
           \<and> 0 \<le> c \<and> c \<le> t \<and> c = 0)"
proof -
  have 1: "faker_draws e_self_pay"
    by (simp add: faker_draws_def pyfloat_result_def has_right_digits_def e_self_pay_def)
  have "random_choice payment_methods (payment_method_draw e_self_pay) = ''Self-Pay''"
    by (simp add: e_self_pay_def random_choice_def payment_methods_def)
  then have 2: "map_of (generate_synthetic_appointment e_self_pay) ''payment_method''
      = Some (JStr ''Self-Pay'')"
    by (simp add: generate_synthetic_appointment_def Let_def)
  from copay_bounds [OF 1] 2
  have "\<exists>c t. map_of (generate_synthetic_appointment e_self_pay) ''copay'' = Some (JNum c)
           \<and> map_of (generate_synthetic_appointment e_self_pay) ''cost'' = Some (JNum t)
           \<and> 0 \<le> c \<and> c \<le> t \<and> c = 0"
    by blast
  with 1 2 show ?thesis by blast
qed


text \<open>The first send of a run meets a channel on which every attempt fails.\<close>

theorem all_attempts_fail_witness:
  "raised (run_producer None []) = None
   \<and> isl (outcome (turn_channel dead_turn 0)) \<and> isl (outcome (turn_channel dead_turn 1))
   \<and> isl (outcome (turn_channel dead_turn 2)) \<and> isl (outcome (turn_channel dead_turn 3))
   \<and> isl (outcome (turn_channel dead_turn 4)) \<and> isl (outcome (turn_channel dead_turn 5))
   \<and> (\<exists>err. run_producer None ([] @ dead_turn # []) = (run_producer None [])\<lparr>raised := Some err\<rparr>
           \<and> length (delivered (run_producer None ([] @ dead_turn # []))) = length ([] :: turn list)
           \<and> count (run_producer None ([] @ dead_turn # [])) = length ([] :: turn list))"
proof -
  have 1: "raised (run_producer None []) = None"
    by (simp add: run_producer_def KafkaProducer_def)
  have 2: "\<forall>i<6. isl (outcome (turn_channel dead_turn i))"
    by (simp add: dead_turn_def dead_channel_def)
  have 3: "isl (outcome (turn_channel dead_turn i))" for i
    by (simp add: dead_turn_def dead_channel_def)
  from all_attempts_fail [OF 1 2, of "[]"] 1 3 show ?thesis by blast
qed

section \<open>Sample runs\<close>

text \<open>Four failed attempts and an acknowledged fifth, inside the ten seconds: delivered.\<close>

lemma fifth_attempt_delivers:
  "run_producer None [slow_turn] =
     \<lparr>delivered = [(generate_synthetic_appointment e_self_pay, \<lparr>partition_no = 0, offset_no = 17\<rparr>)],
      count = 1, raised = None\<rparr>"
proof -
  have five: "(5::nat) = Suc (Suc (Suc (Suc (Suc 0))))" by simp
  have ch: "outcome (slow_channel 0) = Inl (KafkaError ''RequestTimedOut'')"
    "outcome (slow_channel (Suc 0)) = Inl (KafkaError ''RequestTimedOut'')"
    "outcome (slow_channel (Suc (Suc 0))) = Inl (KafkaError ''RequestTimedOut'')"
    "outcome (slow_channel (Suc (Suc (Suc 0)))) = Inl (KafkaError ''RequestTimedOut'')"
    "outcome (slow_channel (Suc (Suc (Suc (Suc 0))))) = Inr \<lparr>partition_no = 0, offset_no = 17\<rparr>"
    "took_ms (slow_channel 0) = 2000" "took_ms (slow_channel (Suc 0)) = 2000"
    "took_ms (slow_channel (Suc (Suc 0))) = 2000" "took_ms (slow_channel (Suc (Suc (Suc 0)))) = 2000"
    "took_ms (slow_channel (Suc (Suc (Suc (Suc 0))))) = 50"
    by (simp_all add: slow_channel_def)
  have "sender (Suc (Suc (Suc (Suc (Suc 0))))) slow_channel 0 0
      = (8050, Inr \<lparr>partition_no = 0, offset_no = 17\<rparr>)"
    by (simp add: ch)
  then have "future_get (producer_send \<lparr>bootstrap_servers = ''localhost:9092'',
        request_timeout_ms = 30000, max_block_ms = 60000, retries = 5\<rparr> slow_channel) 10
      = Inr \<lparr>partition_no = 0, offset_no = 17\<rparr>"
    by (simp add: producer_send_def five future_get_def)
  then show ?thesis
    by (simp add: run_producer_def KafkaProducer_def slow_turn_def Let_def)
qed

text \<open>Two rows 150 seconds apart: three one-minute bins, the middle one empty.\<close>

lemma trend_sample:
  "volume_cost_trend stamped_frame =
     [\<lparr>group_key = 1714564800000000, appointments = 1, revenue = 410\<rparr>,
      \<lparr>group_key = 1714564860000000, appointments = 0, revenue = 0\<rparr>,
      \<lparr>group_key = 1714564920000000, appointments = 1, revenue = 135\<rparr>]"
  by code_simp

lemma status_sample:
  "status_summary \<lparr>columns = event_columns, rows = [newer_row, older_row, newer_row]\<rparr> =
     [\<lparr>group_key = ''Cancelled'', appointments = 2, revenue = 270\<rparr>,
      \<lparr>group_key = ''Completed'', appointments = 1, revenue = 410\<rparr>]"
  by code_simp

end
